theory Spec2Isabelle
  imports Main "HOL-Library.Word"
begin

unbundle bit_operations_syntax

section \<open>The serial port engine of PyrSerialPrim.cpp\<close>

text \<open>
  The file \<^verbatim>\<open>lang/LangPrimSource/PyrSerialPrim.cpp\<close> holds the class \<^verbatim>\<open>SerialPort\<close> and the
  interpreter primitives built on it. The class sits on three things that are not part of the
  file: Boost.Asio's \<^verbatim>\<open>serial_port\<close>, Boost.Lockfree's \<^verbatim>\<open>spsc_queue\<close>, and the slot
  accessors of the language runtime. Each of them is modelled below by the behaviour its
  library documents, as a small state of its own, so that every method of the class can be
  written the way the source writes it.
\<close>

type_synonym byte = "8 word"

definition kNumOptions :: nat where
  "kNumOptions = 7"

definition kBufferSize :: nat where
  "kBufferSize = 8192"

subsection \<open>Exceptions\<close>

datatype error_code = bad_descriptor | operation_aborted | os_error string

fun message :: "error_code \<Rightarrow> string" where
  "message bad_descriptor = ''Bad file descriptor''"
| "message operation_aborted = ''Operation canceled''"
| "message (os_error m) = m"

text \<open>
  \<open>system_error ctx ec\<close> is what the throwing overloads of Asio raise;
  \<open>out_of_range\<close> is raised by the constructor of an option value;
  \<open>terminate_called\<close> stands for \<^verbatim>\<open>std::terminate\<close>, reached when an exception leaves a
  destructor.
\<close>

datatype exn = system_error string error_code | out_of_range string | terminate_called

fun what :: "exn \<Rightarrow> string" where
  "what (system_error ctx ec) = ctx @ '': '' @ message ec"
| "what (out_of_range m) = m"
| "what terminate_called = ''terminate''"

definition try_then :: "exn + 'a \<Rightarrow> ('a \<Rightarrow> exn + 'b) \<Rightarrow> exn + 'b" where
  "try_then r f = (case r of Inl e \<Rightarrow> Inl e | Inr x \<Rightarrow> f x)"

subsection \<open>The options of a port\<close>

datatype parity_type = parity_none | parity_odd | parity_even

datatype stop_bits_type = stop_bits_one | stop_bits_onepointfive | stop_bits_two

datatype flow_control_type = flow_control_none | flow_control_software | flow_control_hardware

text \<open>The five kinds of option value a \<^verbatim>\<open>serial_port\<close> accepts through \<^verbatim>\<open>set_option\<close>.\<close>

datatype port_option =
    opt_baud_rate "32 word"
  | opt_parity parity_type
  | opt_character_size "32 word"
  | opt_stop_bits stop_bits_type
  | opt_flow_control flow_control_type

record Options =
  exclusive :: bool
  baudrate :: "32 word"
  charsize :: "32 word"
  stop_bits :: stop_bits_type
  parity :: parity_type
  crtscts :: bool
  flow_control :: flow_control_type

subsection \<open>The device handle: \<^verbatim>\<open>boost::asio::serial_port\<close>\<close>

text \<open>
  What the operating system and the device answer is a parameter: \<open>open_error\<close> gives the
  message with which opening a path fails (or \<open>None\<close>), \<open>option_error\<close> the message with which
  the device rejects an option value.
\<close>

record device_env =
  open_error :: "string \<Rightarrow> string option"
  option_error :: "port_option \<Rightarrow> string option"

datatype io_kind = ReadSome | WriteSome

text \<open>
  An asynchronous operation that has been started and whose handler has not run yet.
  \<open>op_error = None\<close>: the device is still working on it; \<open>Some ec\<close>: it is over and its
  handler will be called with \<open>ec\<close>.
\<close>

record async_op =
  op_kind :: io_kind
  op_size :: nat
  op_error :: "error_code option"

record serial_port =
  is_open :: bool
  applied :: "port_option list"
  outstanding :: "async_op list"
  written :: "byte list"

definition abort_op :: "async_op \<Rightarrow> async_op" where
  "abort_op a = (case op_error a of None \<Rightarrow> a\<lparr>op_error := Some operation_aborted\<rparr> | Some _ \<Rightarrow> a)"

text \<open>
  The constructor \<^verbatim>\<open>serial_port(io_service, device)\<close> opens the device and throws when that
  fails. The second component counts the handles the process holds on devices.
\<close>

definition asio_open :: "device_env \<Rightarrow> string \<Rightarrow> nat \<Rightarrow> nat \<times> (exn + serial_port)" where
  "asio_open env device handles =
     (case open_error env device of
        Some msg \<Rightarrow> (handles, Inl (system_error ''open'' (os_error msg)))
      | None \<Rightarrow> (Suc handles,
                 Inr \<lparr>is_open = True, applied = [], outstanding = [], written = []\<rparr>))"

definition asio_set_option :: "device_env \<Rightarrow> port_option \<Rightarrow> serial_port \<Rightarrow> exn + serial_port" where
  "asio_set_option env opt p =
     (if \<not> is_open p then Inl (system_error ''set_option'' bad_descriptor)
      else case option_error env opt of
             Some msg \<Rightarrow> Inl (system_error ''set_option'' (os_error msg))
           | None \<Rightarrow> Inr (p\<lparr>applied := applied p @ [opt]\<rparr>))"

text \<open>\<^verbatim>\<open>cancel()\<close> on a handle that is not open fails with \<open>bad_descriptor\<close>, which the
  overload without an error argument throws.\<close>

definition asio_cancel :: "serial_port \<Rightarrow> exn + serial_port" where
  "asio_cancel p =
     (if \<not> is_open p then Inl (system_error ''cancel'' bad_descriptor)
      else Inr (p\<lparr>outstanding := map abort_op (outstanding p)\<rparr>))"

text \<open>\<^verbatim>\<open>close()\<close> cancels what is outstanding and releases the handle; on a closed handle it
  does nothing and succeeds. The operating system's own close is taken to succeed.\<close>

definition asio_close :: "serial_port \<Rightarrow> nat \<Rightarrow> serial_port \<times> nat" where
  "asio_close p handles =
     (if is_open p
      then (p\<lparr>is_open := False, outstanding := map abort_op (outstanding p)\<rparr>, handles - 1)
      else (p, handles))"

text \<open>The destructor of the handle closes it if it is open and never throws.\<close>

definition asio_destroy :: "serial_port \<Rightarrow> nat \<Rightarrow> nat" where
  "asio_destroy p handles = snd (asio_close p handles)"

text \<open>What the device does with a blocking write: it takes some of the bytes, or fails.\<close>

datatype write_response = accepted nat | write_failed string

definition asio_write_some ::
  "write_response \<Rightarrow> byte list \<Rightarrow> serial_port \<Rightarrow> exn + (nat \<times> serial_port)" where
  "asio_write_some resp buf p =
     (if \<not> is_open p then Inl (system_error ''write_some'' bad_descriptor)
      else case resp of
             write_failed msg \<Rightarrow> Inl (system_error ''write_some'' (os_error msg))
           | accepted n \<Rightarrow>
               (let k = min n (length buf)
                in Inr (k, p\<lparr>written := written p @ take k buf\<rparr>)))"

text \<open>
  Starting an asynchronous write never throws: on a closed handle the operation is over at
  once and its handler will be called with \<open>bad_descriptor\<close>.
\<close>

definition asio_async_write_some :: "nat \<Rightarrow> serial_port \<Rightarrow> serial_port" where
  "asio_async_write_some n p =
     p\<lparr>outstanding := outstanding p @
          [\<lparr>op_kind = WriteSome, op_size = n,
            op_error = (if is_open p then None else Some bad_descriptor)\<rparr>]\<rparr>"

subsection \<open>The queue: \<^verbatim>\<open>boost::lockfree::spsc_queue\<close> with capacity \<open>kBufferSize\<close>\<close>

type_synonym FIFO = "byte list"

definition fifo_push :: "byte \<Rightarrow> FIFO \<Rightarrow> bool \<times> FIFO" where
  "fifo_push b q = (if length q < kBufferSize then (True, q @ [b]) else (False, q))"

definition fifo_pop :: "FIFO \<Rightarrow> (byte \<times> FIFO) option" where
  "fifo_pop q = (case q of [] \<Rightarrow> None | x # xs \<Rightarrow> Some (x, xs))"

subsection \<open>The class \<^verbatim>\<open>SerialPort\<close>\<close>

text \<open>
  The members, in the order of the class. \<open>m_obj\<close> is the host object the callbacks are
  tagged with, \<open>m_rxErrors_0\<close> and \<open>m_rxErrors_1\<close> are the two cells of \<^verbatim>\<open>int m_rxErrors[2]\<close>.
  \<open>lang_calls\<close> is not a member: it lists the methods the engine has run in the interpreter
  through \<^verbatim>\<open>runInterpreter\<close>.
\<close>

record SerialPort =
  m_obj :: "nat option"
  m_port :: serial_port
  m_options :: Options
  m_rxErrors_0 :: "32 word"
  m_rxErrors_1 :: "32 word"
  m_rxfifo :: FIFO
  m_rxbuffer :: "byte list"
  lang_calls :: "string list"

text \<open>
  The constructor initialises \<open>m_obj\<close>, \<open>m_port\<close> and \<open>m_options\<close>; the queue constructs itself
  empty. \<^verbatim>\<open>m_rxErrors\<close> and \<^verbatim>\<open>m_rxbuffer\<close> have no initialiser, so they hold whatever the
  memory returned by \<^verbatim>\<open>new\<close> held: that content is the parameter \<open>raw_memory\<close>.
\<close>

record raw_memory =
  raw_rxErrors_0 :: "32 word"
  raw_rxErrors_1 :: "32 word"
  raw_rxbuffer :: "byte list"

text \<open>
  The body applies five options, in this order: baud rate, parity, character size, stop bits,
  flow control. \<open>exclusive\<close> and \<open>crtscts\<close> are left to two FIXME comments. When an option
  throws, the member \<open>m_port\<close> is already constructed, so unwinding runs its destructor
  before the exception leaves.
\<close>

definition SerialPort_ctor ::
  "device_env \<Rightarrow> raw_memory \<Rightarrow> nat option \<Rightarrow> string \<Rightarrow> Options \<Rightarrow> nat \<Rightarrow> nat \<times> (exn + SerialPort)" where
  "SerialPort_ctor env mem obj serialport options handles =
     (case asio_open env serialport handles of
        (h, Inl e) \<Rightarrow> (h, Inl e)
      | (h, Inr port) \<Rightarrow>
          (case try_then (asio_set_option env (opt_baud_rate (baudrate options)) port) (\<lambda>p1.
                try_then (asio_set_option env (opt_parity (parity options)) p1) (\<lambda>p2.
                try_then (asio_set_option env (opt_character_size (charsize options)) p2) (\<lambda>p3.
                try_then (asio_set_option env (opt_stop_bits (stop_bits options)) p3) (\<lambda>p4.
                asio_set_option env (opt_flow_control (flow_control options)) p4)))) of
             Inl e \<Rightarrow> (asio_destroy port h, Inl e)
           | Inr p \<Rightarrow>
               (h, Inr \<lparr>m_obj = obj, m_port = p, m_options = options,
                        m_rxErrors_0 = raw_rxErrors_0 mem, m_rxErrors_1 = raw_rxErrors_1 mem,
                        m_rxfifo = [], m_rxbuffer = raw_rxbuffer mem, lang_calls = []\<rparr>)))"

definition startRead :: "SerialPort \<Rightarrow> SerialPort" where
  "startRead s = s\<lparr>m_port := asio_async_write_some kBufferSize (m_port s)\<rparr>"

definition options :: "SerialPort \<Rightarrow> Options" where
  "options s = m_options s"

text \<open>\<open>put\<close> takes the device's answer to the write as its first argument.\<close>

definition put :: "write_response \<Rightarrow> byte \<Rightarrow> SerialPort \<Rightarrow> exn + (bool \<times> SerialPort)" where
  "put resp b s =
     (case asio_write_some resp [b] (m_port s) of
        Inl e \<Rightarrow> Inl e
      | Inr (n, p) \<Rightarrow> Inr (n = 1, s\<lparr>m_port := p\<rparr>))"

text \<open>\<open>get\<close> returns \<open>None\<close> for \<^verbatim>\<open>false\<close> and the byte stored through the pointer otherwise.\<close>

definition get :: "SerialPort \<Rightarrow> byte option \<times> SerialPort" where
  "get s =
     (case fifo_pop (m_rxfifo s) of
        None \<Rightarrow> (None, s)
      | Some (ret, q) \<Rightarrow> (Some (ret AND 0xFF), s\<lparr>m_rxfifo := q\<rparr>))"

definition rxErrors :: "SerialPort \<Rightarrow> 32 word \<times> SerialPort" where
  "rxErrors s =
     (let x = m_rxErrors_1 s;
          res = x - m_rxErrors_0 s
      in (res, s\<lparr>m_rxErrors_0 := x\<rparr>))"

definition stop :: "SerialPort \<Rightarrow> nat \<Rightarrow> exn + (SerialPort \<times> nat)" where
  "stop s handles =
     (case asio_cancel (m_port s) of
        Inl e \<Rightarrow> Inl e
      | Inr p \<Rightarrow> (case asio_close p handles of (p', h) \<Rightarrow> Inr (s\<lparr>m_port := p'\<rparr>, h)))"

text \<open>The destructor calls \<open>stop\<close>; then the member \<open>m_port\<close> is destroyed.\<close>

definition SerialPort_dtor :: "SerialPort \<Rightarrow> nat \<Rightarrow> exn + nat" where
  "SerialPort_dtor s handles =
     (case stop s handles of
        Inl e \<Rightarrow> Inl terminate_called
      | Inr (s', h) \<Rightarrow> Inr (asio_destroy (m_port s') h))"

definition dataAvailable :: "SerialPort \<Rightarrow> SerialPort" where
  "dataAvailable s =
     (case m_obj s of
        None \<Rightarrow> s
      | Some obj \<Rightarrow> s\<lparr>lang_calls := lang_calls s @ [''prDataAvailable'']\<rparr>)"

definition doneAction :: "SerialPort \<Rightarrow> SerialPort" where
  "doneAction s =
     (case m_obj s of
        None \<Rightarrow> s
      | Some obj \<Rightarrow> s\<lparr>lang_calls := lang_calls s @ [''prDoneAction'']\<rparr>)"

text \<open>One turn of the loop of \<open>doRead\<close>, at position \<open>index\<close> of the scratch buffer.\<close>

definition doRead_step :: "nat \<Rightarrow> SerialPort \<Rightarrow> SerialPort" where
  "doRead_step index s =
     (let b = m_rxbuffer s ! index;
          (putSuccessful, q) = fifo_push b (m_rxfifo s)
      in if \<not> putSuccessful then s\<lparr>m_rxfifo := q, m_rxErrors_1 := m_rxErrors_1 s + 1\<rparr>
         else s\<lparr>m_rxfifo := q\<rparr>)"

text \<open>
  \<open>doRead error bytesTransferred\<close>: \<open>error = Some ec\<close> is a completion that reports \<open>ec\<close>.
  The block under \<^verbatim>\<open>#if 0\<close> is not compiled. The two messages written with \<^verbatim>\<open>printf\<close> are
  left out.
\<close>

definition doRead :: "error_code option \<Rightarrow> nat \<Rightarrow> SerialPort \<Rightarrow> SerialPort" where
  "doRead error bytesTransferred s =
     (case error of
        Some ec \<Rightarrow> startRead s
      | None \<Rightarrow> startRead (dataAvailable (fold doRead_step [0..<bytesTransferred] s)))"

subsection \<open>The event loop's side of an operation\<close>

text \<open>
  A completion as the engine sees it when a read of the device is over: the bytes that were
  transferred lie at the front of the scratch buffer and the handler is called with no error
  and their number.
\<close>

definition read_completion :: "byte list \<Rightarrow> SerialPort \<Rightarrow> SerialPort" where
  "read_completion bs s =
     doRead None (length bs) (s\<lparr>m_rxbuffer := bs @ drop (length bs) (m_rxbuffer s)\<rparr>)"

text \<open>
  \<open>io_complete n inbound\<close> is the event loop finishing the oldest outstanding operation and
  running its handler, which is always \<open>doRead\<close>. \<open>inbound\<close> are the bytes the device has
  received, \<open>n\<close> is how many bytes the device takes if the operation is a write. A write sends
  the front of the scratch buffer to the device and leaves the buffer as it is; a read stores
  inbound bytes in it.
\<close>

definition io_complete :: "nat \<Rightarrow> byte list \<Rightarrow> SerialPort \<Rightarrow> SerialPort" where
  "io_complete n inbound s =
     (case outstanding (m_port s) of
        [] \<Rightarrow> s
      | a # rest \<Rightarrow>
          (let s1 = s\<lparr>m_port := (m_port s)\<lparr>outstanding := rest\<rparr>\<rparr>
           in case op_error a of
                Some ec \<Rightarrow> doRead (Some ec) 0 s1
              | None \<Rightarrow>
                  (case op_kind a of
                     WriteSome \<Rightarrow>
                       (let out = take (min n (op_size a)) (m_rxbuffer s1)
                        in doRead None (length out)
                             (s1\<lparr>m_port := (m_port s1)\<lparr>written := written (m_port s1) @ out\<rparr>\<rparr>))
                   | ReadSome \<Rightarrow> read_completion (take (op_size a) inbound) s1)))"

subsection \<open>The primitives\<close>

text \<open>
  Modelled from the spec: the slot type of the interpreter is declared in the runtime's
  headers, which are not part of the file. The spec (section 6) gives the arguments of the
  primitives as a device path, flags, integers and a byte value; the model keeps one tag for
  each of these, nil, and \<open>SlotObject\<close> for a reference to the receiver. Slots that hold a
  float are left out.
\<close>

datatype PyrSlot =
    SlotNil
  | SlotTrue
  | SlotFalse
  | SlotInt "32 word"
  | SlotChar "8 word"
  | SlotString string
  | SlotObject

text \<open>
  Modelled from the spec: the error codes of a primitive, declared outside the file. The
  three the primitives of the file can return are kept.
\<close>

datatype PyrError = errNone | errFailed | errWrongType

text \<open>The length limit of a path, from the system's headers.\<close>

definition PATH_MAX :: nat where
  "PATH_MAX = 4096"

text \<open>Modelled from the spec: the test for the slot that holds \<^verbatim>\<open>true\<close>, declared outside
  the file.\<close>

definition IsTrue :: "PyrSlot \<Rightarrow> bool" where
  "IsTrue x = (x = SlotTrue)"

text \<open>Modelled from the spec: the test for a slot that holds a character, declared outside
  the file.\<close>

definition IsChar :: "PyrSlot \<Rightarrow> bool" where
  "IsChar x = (case x of SlotChar c \<Rightarrow> True | _ \<Rightarrow> False)"

text \<open>
  Modelled from the spec: the character of a slot as an integer, declared outside the file.
  It is only called on a slot that holds a character; whether the character is extended with
  or without sign makes no difference below, where only the low eight bits are used.
\<close>

definition slotRawChar :: "PyrSlot \<Rightarrow> 32 word" where
  "slotRawChar x = (case x of SlotChar c \<Rightarrow> ucast c | _ \<Rightarrow> 0)"

text \<open>
  Modelled from the spec: the conversion of a slot to an integer, declared outside the file:
  the value of an integer slot, \<open>errWrongType\<close> for a slot that holds no number.
\<close>

definition slotIntVal :: "PyrSlot \<Rightarrow> PyrError + 32 word" where
  "slotIntVal x = (case x of SlotInt i \<Rightarrow> Inr i | _ \<Rightarrow> Inl errWrongType)"

text \<open>
  Modelled from the spec: the conversion of a slot to a C string in a buffer of \<open>maxlen\<close>
  bytes, declared outside the file: the characters of a string slot that fit the buffer,
  \<open>errWrongType\<close> for a slot that holds no string.
\<close>

definition slotStrVal :: "PyrSlot \<Rightarrow> nat \<Rightarrow> PyrError + string" where
  "slotStrVal x maxlen = (case x of SlotString str \<Rightarrow> Inr (take (maxlen - 1) str) | _ \<Rightarrow> Inl errWrongType)"

text \<open>
  Modelled from the spec: the part of the interpreter a primitive works on, declared outside
  the file. \<open>slots_0\<close> is the first slot of the receiver object, holding the engine or nil;
  \<open>self_slot\<close> is the receiver's place on the stack, where a primitive leaves its result;
  \<open>open_handles\<close> counts the device handles the process holds; \<open>post_log\<close> is what has
  been written with \<^verbatim>\<open>post\<close>.
\<close>

record vm_state =
  slots_0 :: "SerialPort option"
  self_slot :: PyrSlot
  open_handles :: nat
  post_log :: "string list"

definition getSerialPort :: "vm_state \<Rightarrow> SerialPort option" where
  "getSerialPort g = slots_0 g"

definition asParityType :: "32 word \<Rightarrow> parity_type" where
  "asParityType i =
     (if i = 0 then parity_none
      else if i = 1 then parity_even
      else if i = 2 then parity_odd
      else parity_none)"

text \<open>
  The constructor of \<^verbatim>\<open>serial_port::character_size\<close> throws \<^verbatim>\<open>std::out_of_range\<close> for a
  value outside 5..8; the source builds that value before its \<^verbatim>\<open>try\<close> block.
\<close>

definition character_size :: "32 word \<Rightarrow> exn + 32 word" where
  "character_size t =
     (if t < 5 \<or> 8 < t then Inl (out_of_range ''invalid character_size value'') else Inr t)"

text \<open>
  \<open>prSerialPort_Open\<close>: \<open>args\<close> are the nine slots from the receiver up, \<open>args ! 0\<close> being
  the receiver. A primitive returns \<open>Inr\<close> of its error code and the state it leaves, or
  \<open>Inl\<close> of the exception that leaves it.
\<close>

definition prSerialPort_Open ::
  "device_env \<Rightarrow> raw_memory \<Rightarrow> PyrSlot list \<Rightarrow> vm_state \<Rightarrow> exn + (PyrError \<times> vm_state)" where
  "prSerialPort_Open env mem args g =
     (if getSerialPort g \<noteq> None then Inr (errFailed, g)
      else case slotStrVal (args ! 1) PATH_MAX of
        Inl err \<Rightarrow> Inr (err, g)
      | Inr portName \<Rightarrow>
      (case slotIntVal (args ! 3) of
        Inl err \<Rightarrow> Inr (err, g)
      | Inr baudrate' \<Rightarrow>
      (case slotIntVal (args ! 4) of
        Inl err \<Rightarrow> Inr (err, g)
      | Inr charsize' \<Rightarrow>
      (case character_size charsize' of
        Inl e \<Rightarrow> Inl e
      | Inr charsize'' \<Rightarrow>
      (case slotIntVal (args ! 6) of
        Inl err \<Rightarrow> Inr (err, g)
      | Inr parity' \<Rightarrow>
          (let options =
                 \<lparr>exclusive = IsTrue (args ! 2),
                  baudrate = baudrate',
                  charsize = charsize'',
                  stop_bits = (if IsTrue (args ! 5) then stop_bits_two else stop_bits_one),
                  parity = asParityType parity',
                  crtscts = IsTrue (args ! 7),
                  flow_control = (if IsTrue (args ! 8) then flow_control_software
                                  else flow_control_hardware)\<rparr>
           in case SerialPort_ctor env mem (Some 0) portName options (open_handles g) of
                (h, Inl e) \<Rightarrow>
                  Inr (errFailed,
                       g\<lparr>open_handles := h,
                         post_log := post_log g @ [''SerialPort Error: '' @ what e]\<rparr>)
              | (h, Inr port) \<Rightarrow>
                  Inr (errNone, g\<lparr>slots_0 := Some port, open_handles := h\<rparr>)))))))"

definition prSerialPort_Close :: "vm_state \<Rightarrow> exn + (PyrError \<times> vm_state)" where
  "prSerialPort_Close g =
     (case getSerialPort g of
        None \<Rightarrow> Inr (errFailed, g)
      | Some port \<Rightarrow>
          (case stop port (open_handles g) of
             Inl e \<Rightarrow> Inl e
           | Inr (port', h) \<Rightarrow> Inr (errNone, g\<lparr>slots_0 := Some port', open_handles := h\<rparr>)))"

definition prSerialPort_Cleanup :: "vm_state \<Rightarrow> exn + (PyrError \<times> vm_state)" where
  "prSerialPort_Cleanup g =
     (case getSerialPort g of
        None \<Rightarrow> Inr (errFailed, g)
      | Some port \<Rightarrow>
          (case SerialPort_dtor port (open_handles g) of
             Inl e \<Rightarrow> Inl e
           | Inr h \<Rightarrow> Inr (errNone, g\<lparr>slots_0 := None, open_handles := h\<rparr>)))"

definition prSerialPort_Next :: "vm_state \<Rightarrow> exn + (PyrError \<times> vm_state)" where
  "prSerialPort_Next g =
     (case getSerialPort g of
        None \<Rightarrow> Inr (errFailed, g)
      | Some port \<Rightarrow>
          (case get port of
             (Some b, port') \<Rightarrow> Inr (errNone, g\<lparr>slots_0 := Some port', self_slot := SlotInt (ucast b)\<rparr>)
           | (None, port') \<Rightarrow> Inr (errNone, g\<lparr>slots_0 := Some port', self_slot := SlotNil\<rparr>)))"

text \<open>\<open>prSerialPort_Put resp src\<close>: \<open>src\<close> is the argument slot, \<open>resp\<close> the device's
  answer to the write.\<close>

definition prSerialPort_Put :: "write_response \<Rightarrow> PyrSlot \<Rightarrow> vm_state \<Rightarrow> exn + (PyrError \<times> vm_state)" where
  "prSerialPort_Put resp src g =
     (case getSerialPort g of
        None \<Rightarrow> Inr (errFailed, g)
      | Some port \<Rightarrow>
          (case (if IsChar src then Inr (slotRawChar src) else slotIntVal src) of
             Inl err \<Rightarrow> Inr (err, g)
           | Inr val \<Rightarrow>
               (case put resp (ucast (val AND 0xFF)) port of
                  Inl e \<Rightarrow> Inl e
                | Inr (res, port') \<Rightarrow>
                    Inr (errNone,
                         g\<lparr>slots_0 := Some port',
                           self_slot := (if res then SlotTrue else SlotFalse)\<rparr>))))"

definition prSerialPort_RXErrors :: "vm_state \<Rightarrow> exn + (PyrError \<times> vm_state)" where
  "prSerialPort_RXErrors g =
     (case getSerialPort g of
        None \<Rightarrow> Inr (errFailed, g)
      | Some port \<Rightarrow>
          (case rxErrors port of
             (res, port') \<Rightarrow> Inr (errNone, g\<lparr>slots_0 := Some port', self_slot := SlotInt res\<rparr>)))"

subsection \<open>Notions the properties are stated with\<close>

text \<open>\<open>reads k\<close> calls \<open>get\<close> \<open>k\<close> times in a row and lists what the calls returned.\<close>

fun reads :: "nat \<Rightarrow> SerialPort \<Rightarrow> byte option list \<times> SerialPort" where
  "reads 0 s = ([], s)"
| "reads (Suc k) s =
     (case get s of (r, s') \<Rightarrow> (case reads k s' of (rs, s'') \<Rightarrow> (r # rs, s'')))"

text \<open>The option values the constructor hands to the device, in the order of its body.\<close>

definition device_configuration :: "Options \<Rightarrow> port_option list" where
  "device_configuration opts =
     [opt_baud_rate (baudrate opts), opt_parity (parity opts),
      opt_character_size (charsize opts), opt_stop_bits (stop_bits opts),
      opt_flow_control (flow_control opts)]"

text \<open>The engine a call of \<open>prSerialPort_Open\<close> has created, if it has created one.\<close>

definition opened_engine :: "exn + (PyrError \<times> vm_state) \<Rightarrow> SerialPort option" where
  "opened_engine r = (case r of Inr (errNone, g) \<Rightarrow> slots_0 g | _ \<Rightarrow> None)"

text \<open>How a primitive ended: with an exception, or with an error code.\<close>

definition ended :: "exn + (PyrError \<times> vm_state) \<Rightarrow> exn + PyrError" where
  "ended r = map_sum id fst r"

subsection \<open>A concrete port\<close>

text \<open>
  A device that opens and takes every option; one that cannot be opened; one that rejects
  hardware flow control, the last option the constructor applies.
\<close>

definition example_env :: device_env where
  "example_env = \<lparr>open_error = (\<lambda>device. None), option_error = (\<lambda>opt. None)\<rparr>"

definition absent_env :: device_env where
  "absent_env = \<lparr>open_error = (\<lambda>device. Some ''No such file or directory''),
                 option_error = (\<lambda>opt. None)\<rparr>"

definition strict_env :: device_env where
  "strict_env = \<lparr>open_error = (\<lambda>device. None),
                 option_error = (\<lambda>opt. if opt = opt_flow_control flow_control_hardware
                                         then Some ''Invalid argument'' else None)\<rparr>"

text \<open>Memory as \<^verbatim>\<open>new\<close> may return it: not zeroed.\<close>

definition example_memory :: raw_memory where
  "example_memory =
     \<lparr>raw_rxErrors_0 = 0, raw_rxErrors_1 = 5,
      raw_rxbuffer = [0x11, 0x22, 0x33] @ replicate (kBufferSize - 3) 0\<rparr>"

definition example_args :: "PyrSlot list" where
  "example_args =
     [SlotObject, SlotString ''/dev/ttyUSB0'', SlotFalse, SlotInt 9600, SlotInt 8, SlotFalse,
      SlotInt 0, SlotFalse, SlotFalse]"

definition example_options :: Options where
  "example_options =
     \<lparr>exclusive = False, baudrate = 9600, charsize = 8, stop_bits = stop_bits_one,
      parity = parity_none, crtscts = False, flow_control = flow_control_hardware\<rparr>"

definition example_vm :: vm_state where
  "example_vm = \<lparr>slots_0 = None, self_slot = SlotObject, open_handles = 0, post_log = []\<rparr>"

text \<open>The engine that opening \<open>example_args\<close> on \<open>example_env\<close> creates.\<close>

definition example_engine :: SerialPort where
  "example_engine =
     \<lparr>m_obj = Some 0,
      m_port = \<lparr>is_open = True, applied = device_configuration example_options,
                outstanding = [], written = []\<rparr>,
      m_options = example_options,
      m_rxErrors_0 = 0, m_rxErrors_1 = 5,
      m_rxfifo = [],
      m_rxbuffer = [0x11, 0x22, 0x33] @ replicate (kBufferSize - 3) 0,
      lang_calls = []\<rparr>"

text \<open>The same engine after \<open>stop\<close>, and the interpreter states that hold the two.\<close>

definition stopped_engine :: SerialPort where
  "stopped_engine = example_engine\<lparr>m_port := (m_port example_engine)\<lparr>is_open := False\<rparr>\<rparr>"

definition open_vm :: vm_state where
  "open_vm = example_vm\<lparr>slots_0 := Some example_engine, open_handles := 1\<rparr>"

definition closed_vm :: vm_state where
  "closed_vm = example_vm\<lparr>slots_0 := Some stopped_engine, open_handles := 0\<rparr>"

section \<open>Properties\<close>

subsection \<open>The loop of \<open>doRead\<close>\<close>

lemma doRead_step_frame:
  "m_rxbuffer (doRead_step i s) = m_rxbuffer s"
  "m_port (doRead_step i s) = m_port s"
  "m_rxErrors_0 (doRead_step i s) = m_rxErrors_0 s"
  "m_obj (doRead_step i s) = m_obj s"
  "m_options (doRead_step i s) = m_options s"
  "lang_calls (doRead_step i s) = lang_calls s"
  by (simp_all add: doRead_step_def fifo_push_def Let_def)

lemma doRead_step_fifo:
  "m_rxfifo (doRead_step i s) =
     (if length (m_rxfifo s) < kBufferSize then m_rxfifo s @ [m_rxbuffer s ! i] else m_rxfifo s)"
  by (simp add: doRead_step_def fifo_push_def Let_def)

lemma doRead_step_errors:
  "m_rxErrors_1 (doRead_step i s) =
     (if length (m_rxfifo s) < kBufferSize then m_rxErrors_1 s else m_rxErrors_1 s + 1)"
  by (simp add: doRead_step_def fifo_push_def Let_def)

lemma doRead_loop_frame:
  "m_rxbuffer (fold doRead_step [0..<n] s) = m_rxbuffer s \<and>
   m_port (fold doRead_step [0..<n] s) = m_port s \<and>
   m_rxErrors_0 (fold doRead_step [0..<n] s) = m_rxErrors_0 s \<and>
   m_obj (fold doRead_step [0..<n] s) = m_obj s \<and>
   m_options (fold doRead_step [0..<n] s) = m_options s \<and>
   lang_calls (fold doRead_step [0..<n] s) = lang_calls s"
  by (induction n) (simp_all add: doRead_step_frame)

lemma take_snoc_if:
  "take k (xs @ [x]) = (if length xs < k then take k xs @ [x] else take k xs)"
  by auto

lemma length_take_less: "(length (take k xs) < k) = (length xs < k)"
  by auto

lemma doRead_loop_fifo:
  assumes "length (m_rxfifo s) \<le> kBufferSize" and "n \<le> length (m_rxbuffer s)"
  shows "m_rxfifo (fold doRead_step [0..<n] s) = take kBufferSize (m_rxfifo s @ take n (m_rxbuffer s))"
  using assms(2)
proof (induction n)
  case 0
  then show ?case using assms(1) by simp
next
  case (Suc n)
  let ?t = "fold doRead_step [0..<n] s"
  let ?xs = "m_rxfifo s @ take n (m_rxbuffer s)"
  have ih: "m_rxfifo ?t = take kBufferSize ?xs"
    using Suc by simp
  have buf: "m_rxbuffer ?t = m_rxbuffer s" by (simp add: doRead_loop_frame)
  have tk: "m_rxfifo s @ take (Suc n) (m_rxbuffer s) = ?xs @ [m_rxbuffer s ! n]"
    using Suc.prems by (simp add: take_Suc_conv_app_nth)
  have "m_rxfifo (fold doRead_step [0..<Suc n] s) = m_rxfifo (doRead_step n ?t)"
    by simp
  also have "\<dots> = (if length (take kBufferSize ?xs) < kBufferSize
         then take kBufferSize ?xs @ [m_rxbuffer s ! n] else take kBufferSize ?xs)"
    by (simp only: doRead_step_fifo ih buf)
  also have "\<dots> = take kBufferSize (?xs @ [m_rxbuffer s ! n])"
    by (simp only: take_snoc_if length_take_less)
  finally show ?case by (simp only: tk)
qed

lemma doRead_loop_errors:
  assumes "length (m_rxfifo s) \<le> kBufferSize" and "n \<le> length (m_rxbuffer s)"
  shows "m_rxErrors_1 (fold doRead_step [0..<n] s) =
         m_rxErrors_1 s + of_nat (length (m_rxfifo s) + n - kBufferSize)"
  using assms(2)
proof (induction n)
  case 0
  then show ?case using assms(1) by simp
next
  case (Suc n)
  let ?t = "fold doRead_step [0..<n] s"
  have ih: "m_rxErrors_1 ?t = m_rxErrors_1 s + of_nat (length (m_rxfifo s) + n - kBufferSize)"
    using Suc by simp
  have ff: "m_rxfifo ?t = take kBufferSize (m_rxfifo s @ take n (m_rxbuffer s))"
    using Suc.prems assms(1) by (simp add: doRead_loop_fifo)
  have "length (m_rxfifo s @ take n (m_rxbuffer s)) = length (m_rxfifo s) + n"
    using Suc.prems by simp
  then have full: "(length (m_rxfifo ?t) < kBufferSize) = (length (m_rxfifo s) + n < kBufferSize)"
    by (simp only: ff length_take_less)
  have step: "m_rxErrors_1 (doRead_step n ?t) =
       (if length (m_rxfifo s) + n < kBufferSize then m_rxErrors_1 ?t else m_rxErrors_1 ?t + 1)"
    by (simp only: doRead_step_errors full)
  show ?case
  proof (cases "length (m_rxfifo s) + n < kBufferSize")
    case True
    then have "length (m_rxfifo s) + Suc n - kBufferSize = 0"
      and "length (m_rxfifo s) + n - kBufferSize = 0" by simp_all
    then show ?thesis using True by (simp add: step ih)
  next
    case False
    then have "length (m_rxfifo s) + Suc n - kBufferSize = Suc (length (m_rxfifo s) + n - kBufferSize)"
      by simp
    then show ?thesis using False by (simp add: step ih)
  qed
qed


lemma low_byte_value: "uint (ucast (n :: 32 word) :: 8 word) = sint n mod 256"
proof -
  have "uint (ucast n :: 8 word) = take_bit 8 (uint n)"
    by (simp add: unsigned_ucast_eq)
  also have "\<dots> = take_bit 8 (take_bit 32 (sint n))"
    by (simp add: uint_sint)
  also have "\<dots> = take_bit 8 (sint n)"
    by simp
  also have "\<dots> = sint n mod 256"
    by (simp add: take_bit_eq_mod)
  finally show ?thesis .
qed

lemma mask_255: "(0xFF :: 32 word) = mask 8"
  by (simp add: mask_eq_exp_minus_1)

lemma ucast_and_255: "(ucast ((n :: 32 word) AND 0xFF) :: 8 word) = ucast n"
  unfolding mask_255 by (rule bit_word_eqI) (auto simp: bit_simps)

lemma ucast_char_and_255: "(ucast ((ucast (c :: 8 word) :: 32 word) AND 0xFF) :: 8 word) = c"
  unfolding mask_255 by (rule bit_word_eqI) (auto simp: bit_simps)

lemma byte_and_255: "(x :: 8 word) AND 0xFF = x"
proof -
  have "(0xFF :: 8 word) = - 1" by simp
  then show ?thesis by (simp only: and.right_neutral)
qed

subsection \<open>Reading from the queue\<close>

lemma get_empty: "m_rxfifo s = [] \<Longrightarrow> get s = (None, s)"
  by (simp add: get_def fifo_pop_def)

lemma get_Cons: "m_rxfifo s = x # xs \<Longrightarrow> get s = (Some x, s\<lparr>m_rxfifo := xs\<rparr>)"
  by (simp add: get_def fifo_pop_def byte_and_255)

lemma reads_fifo:
  "fst (reads k s) = map Some (take k (m_rxfifo s)) @ replicate (k - length (m_rxfifo s)) None"
proof (induction k arbitrary: s)
  case 0
  show ?case by simp
next
  case (Suc k)
  show ?case
  proof (cases "m_rxfifo s")
    case Nil
    then have "get s = (None, s)" by (rule get_empty)
    then show ?thesis using Suc [of s] Nil
      by (simp add: split_beta replicate_app_Cons_same)
  next
    case (Cons x xs)
    then have "get s = (Some x, s\<lparr>m_rxfifo := xs\<rparr>)" by (rule get_Cons)
    then show ?thesis using Suc [of "s\<lparr>m_rxfifo := xs\<rparr>"] Cons
      by (simp add: split_beta)
  qed
qed

subsection \<open>Completions\<close>

lemma startRead_frame:
  "m_rxfifo (startRead s) = m_rxfifo s"
  "m_rxErrors_0 (startRead s) = m_rxErrors_0 s"
  "m_rxErrors_1 (startRead s) = m_rxErrors_1 s"
  "m_rxbuffer (startRead s) = m_rxbuffer s"
  by (simp_all add: startRead_def)

lemma dataAvailable_frame:
  "m_rxfifo (dataAvailable s) = m_rxfifo s"
  "m_rxErrors_0 (dataAvailable s) = m_rxErrors_0 s"
  "m_rxErrors_1 (dataAvailable s) = m_rxErrors_1 s"
  "m_rxbuffer (dataAvailable s) = m_rxbuffer s"
  "m_port (dataAvailable s) = m_port s"
  by (simp_all add: dataAvailable_def split: option.split)

lemma read_completion_fifo:
  assumes "length (m_rxfifo s) \<le> kBufferSize"
  shows "m_rxfifo (read_completion bs s) = take kBufferSize (m_rxfifo s @ bs)"
proof -
  let ?s = "s\<lparr>m_rxbuffer := bs @ drop (length bs) (m_rxbuffer s)\<rparr>"
  have "m_rxfifo (fold doRead_step [0..<length bs] ?s) =
        take kBufferSize (m_rxfifo ?s @ take (length bs) (m_rxbuffer ?s))"
    by (rule doRead_loop_fifo) (use assms in simp_all)
  then show ?thesis
    by (simp add: read_completion_def doRead_def startRead_frame dataAvailable_frame)
qed

lemma read_completion_errors:
  assumes "length (m_rxfifo s) \<le> kBufferSize"
  shows "m_rxErrors_1 (read_completion bs s) =
         m_rxErrors_1 s + of_nat (length (m_rxfifo s) + length bs - kBufferSize)"
proof -
  let ?s = "s\<lparr>m_rxbuffer := bs @ drop (length bs) (m_rxbuffer s)\<rparr>"
  have "m_rxErrors_1 (fold doRead_step [0..<length bs] ?s) =
        m_rxErrors_1 ?s + of_nat (length (m_rxfifo ?s) + length bs - kBufferSize)"
    by (rule doRead_loop_errors) (use assms in simp_all)
  then show ?thesis
    by (simp add: read_completion_def doRead_def startRead_frame dataAvailable_frame)
qed

lemma read_completion_errors_0:
  "m_rxErrors_0 (read_completion bs s) = m_rxErrors_0 s"
  by (simp add: read_completion_def doRead_def startRead_frame dataAvailable_frame doRead_loop_frame)

lemma take_take_append: "take k (take k xs @ ys) = take k (xs @ ys)"
  by (cases "length xs < k") simp_all

lemma completions_fifo:
  "length (m_rxfifo s) \<le> kBufferSize \<Longrightarrow>
   m_rxfifo (fold read_completion bss s) = take kBufferSize (m_rxfifo s @ concat bss)"
proof (induction bss arbitrary: s)
  case Nil
  then show ?case by simp
next
  case (Cons bs bss)
  have f: "m_rxfifo (read_completion bs s) = take kBufferSize (m_rxfifo s @ bs)"
    using Cons.prems by (rule read_completion_fifo)
  then have "length (m_rxfifo (read_completion bs s)) \<le> kBufferSize" by simp
  then have "m_rxfifo (fold read_completion bss (read_completion bs s)) =
             take kBufferSize (m_rxfifo (read_completion bs s) @ concat bss)"
    by (rule Cons.IH)
  then have "m_rxfifo (fold read_completion bss (read_completion bs s)) =
             take kBufferSize ((m_rxfifo s @ bs) @ concat bss)"
    by (simp only: f take_take_append)
  then show ?case by (simp only: fold_simps concat.simps append_assoc)
qed

lemma completions_errors_0:
  "m_rxErrors_0 (fold read_completion bss s) = m_rxErrors_0 s"
  by (induction bss arbitrary: s) (simp_all add: read_completion_errors_0)

lemma completions_errors:
  "length (m_rxfifo s) \<le> kBufferSize \<Longrightarrow>
   m_rxErrors_1 (fold read_completion bss s) =
     m_rxErrors_1 s + of_nat (length (m_rxfifo s) + length (concat bss) - kBufferSize)"
proof (induction bss arbitrary: s)
  case Nil
  then show ?case by simp
next
  case (Cons bs bss)
  let ?t = "read_completion bs s"
  have f: "m_rxfifo ?t = take kBufferSize (m_rxfifo s @ bs)"
    using Cons.prems by (rule read_completion_fifo)
  then have le: "length (m_rxfifo ?t) \<le> kBufferSize" by simp
  have e: "m_rxErrors_1 ?t = m_rxErrors_1 s + of_nat (length (m_rxfifo s) + length bs - kBufferSize)"
    using Cons.prems by (rule read_completion_errors)
  have ih: "m_rxErrors_1 (fold read_completion bss ?t) =
            m_rxErrors_1 ?t + of_nat (length (m_rxfifo ?t) + length (concat bss) - kBufferSize)"
    using le by (rule Cons.IH)
  have len: "length (m_rxfifo ?t) = min kBufferSize (length (m_rxfifo s) + length bs)"
    by (simp add: f min.commute)
  have "(length (m_rxfifo s) + length bs - kBufferSize) +
        (min kBufferSize (length (m_rxfifo s) + length bs) + length (concat bss) - kBufferSize) =
        length (m_rxfifo s) + (length bs + length (concat bss)) - kBufferSize"
    by (cases "length (m_rxfifo s) + length bs \<le> kBufferSize") simp_all
  then have "(of_nat (length (m_rxfifo s) + length bs - kBufferSize) :: 32 word) +
        of_nat (min kBufferSize (length (m_rxfifo s) + length bs) + length (concat bss) - kBufferSize) =
        of_nat (length (m_rxfifo s) + (length bs + length (concat bss)) - kBufferSize)"
    by (simp only: of_nat_add [symmetric])
  then show ?case by (simp add: ih e len add.assoc)
qed

lemma doRead_port:
  "m_port (doRead err n s) = asio_async_write_some kBufferSize (m_port s)"
  by (cases err) (simp_all add: doRead_def startRead_def dataAvailable_frame doRead_loop_frame)

lemma read_completion_port:
  "m_port (read_completion bs s) = asio_async_write_some kBufferSize (m_port s)"
  by (simp add: read_completion_def doRead_port)

lemma doRead_fifo:
  assumes "length (m_rxfifo s) \<le> kBufferSize" and "n \<le> length (m_rxbuffer s)"
  shows "m_rxfifo (doRead None n s) = take kBufferSize (m_rxfifo s @ take n (m_rxbuffer s))"
  using doRead_loop_fifo [OF assms]
  by (simp add: doRead_def startRead_frame dataAvailable_frame)

lemma take_length_take: "take (length (take k xs)) xs = take k xs"
  by (cases "k \<le> length xs") (simp_all add: min_def)

lemma write_completion:
  assumes "outstanding (m_port s) = a # rest" and "op_error a = None" and "op_kind a = WriteSome"
    and "length (m_rxfifo s) \<le> kBufferSize"
  shows "m_rxfifo (io_complete n inbound s) =
           take kBufferSize (m_rxfifo s @ take (min n (op_size a)) (m_rxbuffer s))"
    and "written (m_port (io_complete n inbound s)) =
           written (m_port s) @ take (min n (op_size a)) (m_rxbuffer s)"
proof -
  let ?out = "take (min n (op_size a)) (m_rxbuffer s)"
  let ?s2 = "s\<lparr>m_port := (m_port s)\<lparr>outstanding := rest, written := written (m_port s) @ ?out\<rparr>\<rparr>"
  have c: "io_complete n inbound s = doRead None (length ?out) ?s2"
    using assms(1-3) by (simp add: io_complete_def Let_def)
  have r: "m_rxfifo (doRead None (length ?out) ?s2) =
        take kBufferSize (m_rxfifo ?s2 @ take (length ?out) (m_rxbuffer ?s2))"
    by (rule doRead_fifo) (use assms(4) in simp_all)
  have b2: "m_rxbuffer ?s2 = m_rxbuffer s" and q2: "m_rxfifo ?s2 = m_rxfifo s"
    by simp_all
  show "m_rxfifo (io_complete n inbound s) = take kBufferSize (m_rxfifo s @ ?out)"
    by (simp only: c r b2 q2 take_length_take)
  show "written (m_port (io_complete n inbound s)) = written (m_port s) @ ?out"
    by (simp add: c doRead_port asio_async_write_some_def)
qed

subsection \<open>The concrete port\<close>

lemma ctor_example:
  "SerialPort_ctor example_env example_memory (Some 0) ''/dev/ttyUSB0'' example_options 0 =
     (1, Inr example_engine)"
  by (simp add: SerialPort_ctor_def asio_open_def example_env_def try_then_def asio_set_option_def
      example_engine_def example_memory_def device_configuration_def)

lemma open_example:
  "prSerialPort_Open example_env example_memory example_args example_vm = Inr (errNone, open_vm)"
  by (simp add: prSerialPort_Open_def getSerialPort_def example_vm_def example_args_def slotStrVal_def
     slotIntVal_def character_size_def IsTrue_def asParityType_def PATH_MAX_def open_vm_def
     ctor_example[unfolded example_options_def])

subsection \<open>C1: what the loop starts\<close>

lemma startRead_starts_write:
  "outstanding (m_port (startRead s)) =
     outstanding (m_port s) @
       [\<lparr>op_kind = WriteSome, op_size = kBufferSize,
         op_error = (if is_open (m_port s) then None else Some bad_descriptor)\<rparr>]"
  by (simp add: startRead_def asio_async_write_some_def)

text \<open>
  C1 says that every operation the loop starts is a read and that the bytes pushed into the
  ring buffer on completion are inbound device bytes, never an outbound write of the scratch
  buffer. \<open>startRead\<close> calls \<^verbatim>\<open>async_write_some\<close>. On the concrete port: the operation
  started is a write of \<open>kBufferSize\<close> bytes; when the device has taken two bytes, it has been
  sent the first two bytes of the uninitialised scratch buffer, \<open>0x11\<close> and \<open>0x22\<close>, and those
  same two bytes are what \<open>doRead\<close> pushes into the ring buffer. The bytes \<open>0xAA\<close>, \<open>0xBB\<close>
  that arrived at the device reach neither.
\<close>

theorem read_loop_issues_write:
  "outstanding (m_port (startRead example_engine)) =
     [\<lparr>op_kind = WriteSome, op_size = kBufferSize, op_error = None\<rparr>] \<and>
   written (m_port (io_complete 2 [0xAA, 0xBB] (startRead example_engine))) = [0x11, 0x22] \<and>
   m_rxfifo (io_complete 2 [0xAA, 0xBB] (startRead example_engine)) = [0x11, 0x22]"
proof -
  let ?a = "\<lparr>op_kind = WriteSome, op_size = kBufferSize, op_error = None\<rparr>"
  have o: "outstanding (m_port (startRead example_engine)) = [?a]"
    by (simp add: startRead_starts_write example_engine_def)
  have q: "length (m_rxfifo (startRead example_engine)) \<le> kBufferSize"
    by (simp add: startRead_frame example_engine_def)
  have b: "take (min 2 (op_size ?a)) (m_rxbuffer (startRead example_engine)) = [0x11, 0x22]"
    by (simp add: startRead_frame example_engine_def kBufferSize_def)
  have w: "written (m_port (io_complete 2 [0xAA, 0xBB] (startRead example_engine))) =
           written (m_port (startRead example_engine)) @ [0x11, 0x22]"
    using write_completion(2) [OF o _ _ q, of 2 "[0xAA, 0xBB]"] by (simp only: b) simp
  have f: "m_rxfifo (io_complete 2 [0xAA, 0xBB] (startRead example_engine)) =
           take kBufferSize (m_rxfifo (startRead example_engine) @ [0x11, 0x22])"
    using write_completion(1) [OF o _ _ q, of 2 "[0xAA, 0xBB]"] by (simp only: b) simp
  have w': "written (m_port (startRead example_engine)) = []"
    by (simp add: startRead_def asio_async_write_some_def example_engine_def)
  have f': "take kBufferSize (m_rxfifo (startRead example_engine) @ [0x11, 0x22 :: byte]) = [0x11, 0x22]"
    by (simp add: startRead_frame example_engine_def kBufferSize_def)
  show ?thesis by (simp only: o w f w' f' append_Nil simp_thms)
qed

subsection \<open>C2: the state after Open\<close>

lemma ctor_not_armed:
  "SerialPort_ctor env mem obj path opts h = (h', Inr s) \<Longrightarrow> outstanding (m_port s) = []"
  by (auto simp: SerialPort_ctor_def asio_open_def try_then_def asio_set_option_def
      split: option.splits sum.splits if_splits)

text \<open>
  C2 says that after a successful Open one asynchronous read is outstanding. Neither the
  constructor nor \<open>prSerialPort_Open\<close> calls \<open>startRead\<close>: Open on the concrete port succeeds,
  stores the engine in the receiver, and the engine's port has no outstanding operation.
\<close>

theorem open_leaves_loop_unarmed:
  "prSerialPort_Open example_env example_memory example_args example_vm = Inr (errNone, open_vm) \<and>
   slots_0 open_vm = Some example_engine \<and>
   outstanding (m_port example_engine) = []"
  by (simp add: open_example) (simp add: open_vm_def example_engine_def)

subsection \<open>C3: a completion after stop\<close>

lemma doRead_error_rearms:
  "outstanding (m_port (doRead (Some ec) n s)) =
     outstanding (m_port s) @
       [\<lparr>op_kind = WriteSome, op_size = kBufferSize,
         op_error = (if is_open (m_port s) then None else Some bad_descriptor)\<rparr>]"
  by (simp add: doRead_def startRead_starts_write)

text \<open>
  C3 says that a completion handled after \<open>stop\<close> does not start another read. \<open>doRead\<close>
  calls \<open>startRead\<close> on every error without looking at the port. On the concrete port with
  the loop armed: \<open>stop\<close> succeeds, the port is closed and the outstanding operation is
  aborted; when the event loop then runs the handler of that operation, the port, still
  closed, has a new outstanding operation.
\<close>

theorem rearmed_after_stop:
  "\<not> isl (stop (startRead example_engine) 1) \<and>
   m_port (fst (projr (stop (startRead example_engine) 1))) =
     \<lparr>is_open = False, applied = device_configuration example_options,
      outstanding = [\<lparr>op_kind = WriteSome, op_size = kBufferSize, op_error = Some operation_aborted\<rparr>],
      written = []\<rparr> \<and>
   m_port (io_complete 0 [] (fst (projr (stop (startRead example_engine) 1)))) =
     \<lparr>is_open = False, applied = device_configuration example_options,
      outstanding = [\<lparr>op_kind = WriteSome, op_size = kBufferSize, op_error = Some bad_descriptor\<rparr>],
      written = []\<rparr>"
proof -
  have s: "stop (startRead example_engine) 1 =
     Inr ((startRead example_engine)\<lparr>m_port :=
       \<lparr>is_open = False, applied = device_configuration example_options,
        outstanding = [\<lparr>op_kind = WriteSome, op_size = kBufferSize, op_error = Some operation_aborted\<rparr>],
        written = []\<rparr>\<rparr>, 0)"
    by (simp add: stop_def asio_cancel_def asio_close_def startRead_def asio_async_write_some_def
        abort_op_def example_engine_def)
  show ?thesis
    unfolding s by (simp add: io_complete_def Let_def doRead_port asio_async_write_some_def)
qed

subsection \<open>C4: stopping twice\<close>

lemma stop_twice_raises:
  "stop s h = Inr (s', h') \<Longrightarrow> stop s' h' = Inl (system_error ''cancel'' bad_descriptor)"
  by (auto simp: stop_def asio_cancel_def asio_close_def split: if_splits)

text \<open>
  C4 says that \<open>stop\<close> can be called any number of times without raising. The first
  \<open>prSerialPort_Close\<close> on the concrete port succeeds. The second calls \<^verbatim>\<open>cancel()\<close> on the
  closed handle, which throws, and the exception leaves the primitive. The destructor calls
  \<open>stop\<close> as well, so \<open>prSerialPort_Cleanup\<close> after a close ends in \<^verbatim>\<open>std::terminate\<close>.
\<close>

theorem second_stop_raises:
  "prSerialPort_Close open_vm = Inr (errNone, closed_vm) \<and>
   prSerialPort_Close closed_vm = Inl (system_error ''cancel'' bad_descriptor) \<and>
   prSerialPort_Cleanup closed_vm = Inl terminate_called"
  by (simp add: prSerialPort_Close_def prSerialPort_Cleanup_def SerialPort_dtor_def getSerialPort_def
      open_vm_def closed_vm_def stopped_engine_def example_vm_def stop_def asio_cancel_def
      asio_close_def example_engine_def)

subsection \<open>C5: reading and writing after stop\<close>

lemma stop_frame: "stop s h = Inr (s', h') \<Longrightarrow> m_rxfifo s' = m_rxfifo s \<and> \<not> is_open (m_port s')"
  by (auto simp: stop_def asio_cancel_def asio_close_def split: if_splits)

lemma put_after_stop_raises:
  "stop s h = Inr (s', h') \<Longrightarrow> put resp b s' = Inl (system_error ''write_some'' bad_descriptor)"
  using stop_frame [of s h s' h'] by (simp add: put_def asio_write_some_def)

lemma prSerialPort_Put_after_close_raises:
  "prSerialPort_Put resp (SlotInt n) closed_vm = Inl (system_error ''write_some'' bad_descriptor)"
  by (simp add: prSerialPort_Put_def getSerialPort_def closed_vm_def example_vm_def IsChar_def
      slotIntVal_def put_def asio_write_some_def stopped_engine_def example_engine_def)

text \<open>
  C5 says that after \<open>stop\<close> every Read returns nothing and every Write returns false or
  a defined error. It fails on the concrete port: with one byte received and not yet read,
  \<open>stop\<close> succeeds, the next \<open>get\<close> returns that byte, and \<open>put\<close> throws.
\<close>

theorem read_after_stop_returns_data:
  "\<not> isl (stop (read_completion [0x41] example_engine) 1) \<and>
   fst (get (fst (projr (stop (read_completion [0x41] example_engine) 1)))) = Some 0x41 \<and>
   put (accepted 1) 0x42 (fst (projr (stop (read_completion [0x41] example_engine) 1))) =
     Inl (system_error ''write_some'' bad_descriptor)"
proof -
  have f: "m_rxfifo (read_completion [0x41] example_engine) = [0x41]"
    by (simp add: read_completion_fifo example_engine_def kBufferSize_def)
  have p: "is_open (m_port (read_completion [0x41] example_engine))"
    by (simp add: read_completion_port asio_async_write_some_def example_engine_def)
  show ?thesis
    by (simp add: stop_def asio_cancel_def asio_close_def p f get_def fifo_pop_def put_def
        asio_write_some_def)
qed

text \<open>
  C5 as amended: \<open>stop\<close> leaves the ring buffer as it is and \<open>get\<close> does not look at the
  port. So on every stopped engine, any number of Read calls in a row return, in order, the
  bytes that were buffered when the engine was stopped, and nothing from then on; none of
  them fails.
\<close>

theorem reads_after_stop:
  assumes "stop s h = Inr (s', h')"
  shows "fst (reads k s') =
         map Some (take k (m_rxfifo s)) @ replicate (k - length (m_rxfifo s)) None"
  using stop_frame [OF assms] by (simp add: reads_fifo)

theorem reads_after_stop_witness:
  "\<not> isl (stop (read_completion [0x41, 0x42] example_engine) 1) \<and>
   fst (reads 3 (fst (projr (stop (read_completion [0x41, 0x42] example_engine) 1)))) =
     [Some 0x41, Some 0x42, None]"
proof -
  let ?stopped = "(read_completion [0x41, 0x42] example_engine)
            \<lparr>m_port := \<lparr>is_open = False, applied = device_configuration example_options,
                        outstanding = [\<lparr>op_kind = WriteSome, op_size = kBufferSize,
                                        op_error = Some operation_aborted\<rparr>],
                        written = []\<rparr>\<rparr>"
  have f: "m_rxfifo (read_completion [0x41, 0x42] example_engine) = [0x41, 0x42]"
    by (simp add: read_completion_fifo example_engine_def kBufferSize_def)
  have p: "m_port (read_completion [0x41, 0x42] example_engine) =
           \<lparr>is_open = True, applied = device_configuration example_options,
            outstanding = [\<lparr>op_kind = WriteSome, op_size = kBufferSize, op_error = None\<rparr>],
            written = []\<rparr>"
    by (simp add: read_completion_port asio_async_write_some_def example_engine_def)
  have s: "stop (read_completion [0x41, 0x42] example_engine) 1 = Inr (?stopped, 0)"
    by (simp add: stop_def asio_cancel_def asio_close_def p abort_op_def)
  have "fst (reads 3 ?stopped) =
        map Some (take 3 [0x41, 0x42]) @ replicate (3 - length [0x41, 0x42 :: byte]) None"
    using reads_after_stop [OF s, of 3] by (simp only: f)
  also have "\<dots> = [Some 0x41, Some 0x42, None]"
    by simp
  finally have r: "fst (reads 3 ?stopped) = [Some 0x41, Some 0x42, None]" .
  show ?thesis unfolding s using r by simp
qed

subsection \<open>C6: the error counter\<close>

lemma rxErrors_after_overflow:
  assumes "m_rxfifo s = []" and "m_rxErrors_0 s = m_rxErrors_1 s"
    and "kBufferSize < length (concat bss)"
  shows "m_rxErrors_1 (fold read_completion bss s) =
           m_rxErrors_1 s + of_nat (length (concat bss) - kBufferSize)"
    and "fst (rxErrors (fold read_completion bss s)) = of_nat (length (concat bss) - kBufferSize)"
    and "fst (rxErrors (snd (rxErrors (fold read_completion bss s)))) = 0"
  using assms
  by (simp_all add: rxErrors_def Let_def completions_errors completions_errors_0)

text \<open>
  C6 says that when more than 8192 bytes arrive before any Read, the first \<open>rxErrors\<close>
  returns the number of bytes beyond 8192. The lemma above gives that for an engine whose two
  counter cells start equal. The constructor does not initialise the cells: the concrete
  engine is what it builds on memory holding 0 and 5 there, and after 8193 bytes in two
  completions the first \<open>rxErrors\<close> returns 6, not 1.
\<close>

theorem rxErrors_uninitialised:
  "SerialPort_ctor example_env example_memory (Some 0) ''/dev/ttyUSB0'' example_options 0 =
     (1, Inr example_engine) \<and>
   fst (rxErrors (fold read_completion [replicate kBufferSize 0x55, [0x56]] example_engine)) = 6"
proof -
  have "m_rxErrors_1 (fold read_completion [replicate kBufferSize 0x55, [0x56]] example_engine) =
        m_rxErrors_1 example_engine +
        of_nat (length (m_rxfifo example_engine) + length (concat [replicate kBufferSize 0x55, [0x56 :: byte]]) - kBufferSize)"
    by (rule completions_errors) (simp add: example_engine_def)
  then have "m_rxErrors_1 (fold read_completion [replicate kBufferSize 0x55, [0x56]] example_engine) = 6"
    by (simp add: example_engine_def)
  moreover have "m_rxErrors_0 (fold read_completion [replicate kBufferSize 0x55, [0x56]] example_engine) = 0"
    by (simp only: completions_errors_0) (simp add: example_engine_def)
  ultimately show ?thesis
    by (simp add: rxErrors_def Let_def ctor_example)
qed

subsection \<open>C7: order of the bytes\<close>

text \<open>
  C7: when the bytes of a sequence of successful read completions all fit into the ring
  buffer, repeated Read calls return what the buffer held before, then the bytes of the
  completions in the order of their arrival, and nothing after that.
\<close>

theorem fifo_order_preserved:
  assumes "length (m_rxfifo s) + length (concat bss) \<le> kBufferSize"
  shows "fst (reads (length (m_rxfifo s) + length (concat bss) + k) (fold read_completion bss s)) =
         map Some (m_rxfifo s @ concat bss) @ replicate k None"
proof -
  have "length (m_rxfifo s) \<le> kBufferSize" using assms by simp
  then have "m_rxfifo (fold read_completion bss s) = take kBufferSize (m_rxfifo s @ concat bss)"
    by (rule completions_fifo)
  then have "m_rxfifo (fold read_completion bss s) = m_rxfifo s @ concat bss"
    using assms by simp
  then show ?thesis by (simp add: reads_fifo)
qed

theorem fifo_order_preserved_witness:
  "length (m_rxfifo example_engine) + length (concat [[0x41, 0x42], [0x43 :: byte]]) \<le> kBufferSize \<and>
   fst (reads 4 (fold read_completion [[0x41, 0x42], [0x43]] example_engine)) =
     [Some 0x41, Some 0x42, Some 0x43, None]"
proof -
  have e: "m_rxfifo example_engine = []"
    by (simp add: example_engine_def)
  have h: "length (m_rxfifo example_engine) + length (concat [[0x41, 0x42], [0x43 :: byte]]) \<le> kBufferSize"
    by (simp add: e kBufferSize_def)
  have n: "length (m_rxfifo example_engine) + length (concat [[0x41, 0x42], [0x43 :: byte]]) + 1 = 4"
    by (simp add: e)
  have "fst (reads 4 (fold read_completion [[0x41, 0x42], [0x43]] example_engine)) =
        map Some (m_rxfifo example_engine @ concat [[0x41, 0x42], [0x43]]) @ replicate 1 None"
    using fifo_order_preserved [OF h, of 1] by (simp only: n)
  then have "fst (reads 4 (fold read_completion [[0x41, 0x42], [0x43]] example_engine)) =
        [Some 0x41, Some 0x42, Some 0x43, None]"
    by (simp only: e concat.simps append.simps list.map replicate.simps One_nat_def)
  then have r: "fst (reads 4 (fold read_completion [[0x41, 0x42], [0x43]] example_engine)) =
        [Some 0x41, Some 0x42, Some 0x43, None]" .
  show ?thesis by (rule conjI [OF h r])
qed

subsection \<open>C8: Open that fails\<close>

lemma ctor_open_fails:
  "open_error env path = Some m \<Longrightarrow>
   SerialPort_ctor env mem obj path opts h = (h, Inl (system_error ''open'' (os_error m)))"
  by (simp add: SerialPort_ctor_def asio_open_def)

lemma ctor_option_fails_message:
  assumes "open_error env path = None"
    and "\<exists>opt \<in> set (device_configuration opts). option_error env opt \<noteq> None"
  shows "\<exists>m. (\<exists>opt \<in> set (device_configuration opts). option_error env opt = Some m) \<and>
             SerialPort_ctor env mem obj path opts h =
               (h, Inl (system_error ''set_option'' (os_error m)))"
  using assms
  by (auto simp: SerialPort_ctor_def asio_open_def try_then_def asio_set_option_def
      device_configuration_def asio_destroy_def asio_close_def split: option.splits)

text \<open>
  With a character size in 5..8, a receiver that holds no engine and arguments of the types
  Open expects: if the device cannot be opened, or rejects one of the five options, then Open
  returns \<open>errFailed\<close>, and the state it leaves differs from the one before only by one
  posted line, \<open>SerialPort Error: \<close> followed by \<open>open: \<close> or \<open>set_option: \<close> and a
  message the device gave. The receiver still holds no engine and the number of open handles
  is the same.
\<close>

lemma open_failure_with_valid_size:
  assumes "getSerialPort g = None"
    and "args ! 1 = SlotString path" and "length path < PATH_MAX"
    and "args ! 3 = SlotInt b"
    and "args ! 4 = SlotInt c" and "5 \<le> c" and "c \<le> 8"
    and "args ! 6 = SlotInt p"
    and "open_error env path \<noteq> None \<or>
         (\<exists>opt \<in> set [opt_baud_rate b, opt_parity (asParityType p), opt_character_size c,
                        opt_stop_bits (if IsTrue (args ! 5) then stop_bits_two else stop_bits_one),
                        opt_flow_control (if IsTrue (args ! 8) then flow_control_software
                                          else flow_control_hardware)].
            option_error env opt \<noteq> None)"
  shows "\<exists>m. (open_error env path = Some m \<or>
              (\<exists>opt \<in> set [opt_baud_rate b, opt_parity (asParityType p), opt_character_size c,
                        opt_stop_bits (if IsTrue (args ! 5) then stop_bits_two else stop_bits_one),
                        opt_flow_control (if IsTrue (args ! 8) then flow_control_software
                                          else flow_control_hardware)].
                 option_error env opt = Some m)) \<and>
             prSerialPort_Open env mem args g =
               Inr (errFailed,
                    g\<lparr>post_log := post_log g @
                        [''SerialPort Error: '' @
                         (if open_error env path = None then ''set_option'' else ''open'') @
                         '': '' @ m]\<rparr>)"
proof -
  let ?opts = "\<lparr>exclusive = IsTrue (args ! 2), baudrate = b, charsize = c,
                stop_bits = (if IsTrue (args ! 5) then stop_bits_two else stop_bits_one),
                parity = asParityType p, crtscts = IsTrue (args ! 7),
                flow_control = (if IsTrue (args ! 8) then flow_control_software
                                else flow_control_hardware)\<rparr>"
  have cfg: "device_configuration ?opts =
         [opt_baud_rate b, opt_parity (asParityType p), opt_character_size c,
          opt_stop_bits (if IsTrue (args ! 5) then stop_bits_two else stop_bits_one),
          opt_flow_control (if IsTrue (args ! 8) then flow_control_software
                            else flow_control_hardware)]"
    by (simp add: device_configuration_def)
  have cs: "character_size c = Inr c"
    using assms(6,7) by (simp add: character_size_def not_less)
  have run: "prSerialPort_Open env mem args g =
          Inr (errFailed, g\<lparr>post_log := post_log g @ [''SerialPort Error: '' @ what e]\<rparr>)"
    if "SerialPort_ctor env mem (Some 0) path ?opts (open_handles g) = (open_handles g, Inl e)" for e
    using assms(1-5,8) that
    by (simp add: prSerialPort_Open_def slotStrVal_def slotIntVal_def cs Let_def)
  show ?thesis
  proof (cases "open_error env path")
    case (Some m)
    have "SerialPort_ctor env mem (Some 0) path ?opts (open_handles g) =
            (open_handles g, Inl (system_error ''open'' (os_error m)))"
      using Some by (rule ctor_open_fails)
    from run [OF this] show ?thesis using Some by auto
  next
    case None
    then have "\<exists>opt \<in> set (device_configuration ?opts). option_error env opt \<noteq> None"
      using assms(9) by (simp only: cfg) simp
    from ctor_option_fails_message [OF None this, of mem "Some 0" "open_handles g"]
    obtain m where m: "\<exists>opt \<in> set (device_configuration ?opts). option_error env opt = Some m"
      and c: "SerialPort_ctor env mem (Some 0) path ?opts (open_handles g) =
            (open_handles g, Inl (system_error ''set_option'' (os_error m)))"
      by blast
    from run [OF c] m show ?thesis using None unfolding cfg by auto
  qed
qed

lemma open_on_absent_device:
  "prSerialPort_Open absent_env example_memory example_args example_vm =
     Inr (errFailed,
          example_vm\<lparr>post_log := [''SerialPort Error: open: No such file or directory'']\<rparr>)"
  by (simp add: prSerialPort_Open_def getSerialPort_def example_vm_def example_args_def
      slotStrVal_def slotIntVal_def character_size_def IsTrue_def asParityType_def PATH_MAX_def
      SerialPort_ctor_def asio_open_def absent_env_def)

lemma open_on_strict_device:
  "prSerialPort_Open strict_env example_memory example_args example_vm =
     Inr (errFailed,
          example_vm\<lparr>post_log := [''SerialPort Error: set_option: Invalid argument'']\<rparr>)"
  by (simp add: prSerialPort_Open_def getSerialPort_def example_vm_def example_args_def
      slotStrVal_def slotIntVal_def character_size_def IsTrue_def asParityType_def PATH_MAX_def
      SerialPort_ctor_def asio_open_def strict_env_def try_then_def asio_set_option_def
      asio_destroy_def asio_close_def)

text \<open>
  The character size is turned into an option value before the \<^verbatim>\<open>try\<close> block. A size
  outside 5..8 makes that throw, whatever the device is.
\<close>

lemma open_invalid_size_escapes:
  assumes "getSerialPort g = None"
    and "args ! 1 = SlotString path"
    and "args ! 3 = SlotInt b"
    and "args ! 4 = SlotInt c" and "c < 5 \<or> 8 < c"
  shows "prSerialPort_Open env mem args g = Inl (out_of_range ''invalid character_size value'')"
  using assms
  by (simp add: prSerialPort_Open_def slotStrVal_def slotIntVal_def character_size_def)

text \<open>
  C8 says that for every device path and option set, an open or an option that fails makes
  Open return a failure with a descriptive message. It fails for the option set with
  character size 9: on a device that cannot be opened, and on one that opens and takes every
  option, Open does not return at all. \<^verbatim>\<open>std::out_of_range\<close> leaves the primitive, no
  error code is returned and nothing is posted.
\<close>

theorem open_invalid_character_size:
  "prSerialPort_Open absent_env example_memory (example_args[4 := SlotInt 9]) example_vm =
     Inl (out_of_range ''invalid character_size value'') \<and>
   prSerialPort_Open example_env example_memory (example_args[4 := SlotInt 9]) example_vm =
     Inl (out_of_range ''invalid character_size value'')"
  by (simp add: prSerialPort_Open_def getSerialPort_def example_vm_def example_args_def
      slotStrVal_def slotIntVal_def character_size_def)

subsection \<open>C9: the byte that Put writes\<close>

text \<open>
  C9: on an open port whose device takes the byte, Put of an integer \<open>n\<close> writes the one byte
  whose value is \<open>n mod 256\<close>, and Put of a character writes that character; both return
  true.
\<close>

theorem put_truncates_to_low_byte:
  assumes "getSerialPort g = Some port" and "is_open (m_port port)" and "0 < k"
  shows "prSerialPort_Put (accepted k) (SlotInt n) g =
           Inr (errNone,
                g\<lparr>slots_0 := Some (port\<lparr>m_port := (m_port port)\<lparr>written :=
                                   written (m_port port) @ [ucast n]\<rparr>\<rparr>),
                  self_slot := SlotTrue\<rparr>) \<and>
         uint (ucast n :: byte) = sint n mod 256 \<and>
         prSerialPort_Put (accepted k) (SlotChar c) g =
           Inr (errNone,
                g\<lparr>slots_0 := Some (port\<lparr>m_port := (m_port port)\<lparr>written :=
                                   written (m_port port) @ [c]\<rparr>\<rparr>),
                  self_slot := SlotTrue\<rparr>)"
proof -
  have k: "min k (Suc 0) = Suc 0" using assms(3) by simp
  have 1: "prSerialPort_Put (accepted k) (SlotInt n) g =
           Inr (errNone,
                g\<lparr>slots_0 := Some (port\<lparr>m_port := (m_port port)\<lparr>written :=
                                   written (m_port port) @ [ucast n]\<rparr>\<rparr>),
                  self_slot := SlotTrue\<rparr>)"
    using assms(1,2)
    by (simp add: prSerialPort_Put_def IsChar_def slotIntVal_def put_def asio_write_some_def
        Let_def k ucast_and_255)
  have 2: "prSerialPort_Put (accepted k) (SlotChar c) g =
           Inr (errNone,
                g\<lparr>slots_0 := Some (port\<lparr>m_port := (m_port port)\<lparr>written :=
                                   written (m_port port) @ [c]\<rparr>\<rparr>),
                  self_slot := SlotTrue\<rparr>)"
    using assms(1,2)
    by (simp add: prSerialPort_Put_def IsChar_def slotRawChar_def put_def asio_write_some_def
        Let_def k ucast_char_and_255)
  show ?thesis using 1 2 low_byte_value by blast
qed

theorem put_truncates_to_low_byte_witness:
  "prSerialPort_Put (accepted 1) (SlotInt 0x1234) open_vm =
     Inr (errNone,
          open_vm\<lparr>slots_0 := Some (example_engine\<lparr>m_port := (m_port example_engine)\<lparr>written := [0x34]\<rparr>\<rparr>),
                  self_slot := SlotTrue\<rparr>) \<and>
   prSerialPort_Put (accepted 1) (SlotInt 0xFFFFFFFF) open_vm =
     Inr (errNone,
          open_vm\<lparr>slots_0 := Some (example_engine\<lparr>m_port := (m_port example_engine)\<lparr>written := [0xFF]\<rparr>\<rparr>),
                  self_slot := SlotTrue\<rparr>)"
proof -
  have g: "getSerialPort open_vm = Some example_engine"
    by (simp add: getSerialPort_def open_vm_def)
  have p: "is_open (m_port example_engine)"
    by (simp add: example_engine_def)
  have w: "written (m_port example_engine) = []"
    by (simp add: example_engine_def)
  have k: "0 < (1::nat)" by simp
  have a: "(ucast (0x1234 :: 32 word) :: byte) = 0x34" by simp
  have b: "(ucast (0xFFFFFFFF :: 32 word) :: byte) = 0xFF" by simp
  show ?thesis
    using put_truncates_to_low_byte [OF g p k, of "0x1234"] put_truncates_to_low_byte [OF g p k, of "0xFFFFFFFF"]
    by (simp only: a b w append_Nil)
qed

subsection \<open>C10: the flags that are stored only\<close>

lemma slotStrVal_error: "slotStrVal v n = Inl err \<Longrightarrow> err = errWrongType"
  by (simp add: slotStrVal_def split: PyrSlot.splits)

lemma slotIntVal_error: "slotIntVal v = Inl err \<Longrightarrow> err = errWrongType"
  by (simp add: slotIntVal_def split: PyrSlot.splits)

lemma ctor_flags:
  "SerialPort_ctor env mem obj path (opts\<lparr>exclusive := e, crtscts := r\<rparr>) h =
     (case SerialPort_ctor env mem obj path opts h of
        (h', Inl ex) \<Rightarrow> (h', Inl ex)
      | (h', Inr s) \<Rightarrow> (h', Inr (s\<lparr>m_options := (m_options s)\<lparr>exclusive := e, crtscts := r\<rparr>\<rparr>)))"
  by (simp add: SerialPort_ctor_def split: prod.splits sum.splits)

text \<open>
  C10: replacing the exclusive flag (argument 2) and the rts/cts flag (argument 7) by any
  other values changes neither how Open ends nor the device handle of the engine it creates,
  which carries the configuration applied. The engine created stores the two flags in its
  options.
\<close>

theorem flags_not_applied:
  assumes "length args = 9"
  shows "ended (prSerialPort_Open env mem (args[2 := x, 7 := y]) g) =
           ended (prSerialPort_Open env mem args g) \<and>
         map_option m_port (opened_engine (prSerialPort_Open env mem (args[2 := x, 7 := y]) g)) =
           map_option m_port (opened_engine (prSerialPort_Open env mem args g)) \<and>
         (\<forall>s. opened_engine (prSerialPort_Open env mem (args[2 := x, 7 := y]) g) = Some s \<longrightarrow>
              exclusive (options s) = IsTrue x \<and> crtscts (options s) = IsTrue y)"
proof -
  have n: "args[2 := x, 7 := y] ! 1 = args ! 1" "args[2 := x, 7 := y] ! 3 = args ! 3"
    "args[2 := x, 7 := y] ! 4 = args ! 4" "args[2 := x, 7 := y] ! 5 = args ! 5"
    "args[2 := x, 7 := y] ! 6 = args ! 6" "args[2 := x, 7 := y] ! 8 = args ! 8"
    "args[2 := x, 7 := y] ! 2 = x" "args[2 := x, 7 := y] ! 7 = y"
    using assms by simp_all
  let ?A = "args[2 := x, 7 := y]"
  let ?goal = "\<lambda>r' r. ended r' = ended r \<and>
       map_option m_port (opened_engine r') = map_option m_port (opened_engine r) \<and>
       (\<forall>s. opened_engine r' = Some s \<longrightarrow>
            exclusive (options s) = IsTrue x \<and> crtscts (options s) = IsTrue y)"
  have early: "?goal (Inr (err, g)) (Inr (err, g))" if "err \<noteq> errNone" for err
    using that by (cases err) (simp_all add: opened_engine_def)
  show ?thesis
  proof (cases "getSerialPort g")
    case (Some s0)
    then have "prSerialPort_Open env mem ?A g = Inr (errFailed, g)"
      and "prSerialPort_Open env mem args g = Inr (errFailed, g)"
      by (simp_all add: prSerialPort_Open_def)
    then show ?thesis using early [of errFailed] by simp
  next
    case None
    show ?thesis
    proof (cases "slotStrVal (args ! 1) PATH_MAX")
      case (Inl err)
      then have "prSerialPort_Open env mem ?A g = Inr (err, g)"
        and "prSerialPort_Open env mem args g = Inr (err, g)"
        using None by (simp_all add: prSerialPort_Open_def n)
      then show ?thesis using early [of err] slotStrVal_error [OF Inl] by simp
    next
      case path: (Inr portName)
      show ?thesis
      proof (cases "slotIntVal (args ! 3)")
        case (Inl err)
        then have "prSerialPort_Open env mem ?A g = Inr (err, g)"
          and "prSerialPort_Open env mem args g = Inr (err, g)"
          using None path by (simp_all add: prSerialPort_Open_def n)
        then show ?thesis using early [of err] slotIntVal_error [OF Inl] by simp
      next
        case baud: (Inr b)
        show ?thesis
        proof (cases "slotIntVal (args ! 4)")
          case (Inl err)
          then have "prSerialPort_Open env mem ?A g = Inr (err, g)"
            and "prSerialPort_Open env mem args g = Inr (err, g)"
            using None path baud by (simp_all add: prSerialPort_Open_def n)
          then show ?thesis using early [of err] slotIntVal_error [OF Inl] by simp
        next
          case size: (Inr c)
          show ?thesis
          proof (cases "character_size c")
            case (Inl e)
            then have "prSerialPort_Open env mem ?A g = Inl e"
              and "prSerialPort_Open env mem args g = Inl e"
              using None path baud size by (simp_all add: prSerialPort_Open_def n)
            then show ?thesis by (simp add: opened_engine_def)
          next
            case valid: (Inr c')
            show ?thesis
            proof (cases "slotIntVal (args ! 6)")
              case (Inl err)
              then have "prSerialPort_Open env mem ?A g = Inr (err, g)"
                and "prSerialPort_Open env mem args g = Inr (err, g)"
                using None path baud size valid by (simp_all add: prSerialPort_Open_def n)
              then show ?thesis using early [of err] slotIntVal_error [OF Inl] by simp
            next
              case par: (Inr p)
              let ?o = "\<lparr>exclusive = IsTrue (args ! 2), baudrate = b, charsize = c',
                    stop_bits = (if IsTrue (args ! 5) then stop_bits_two else stop_bits_one),
                    parity = asParityType p, crtscts = IsTrue (args ! 7),
                    flow_control = (if IsTrue (args ! 8) then flow_control_software
                                    else flow_control_hardware)\<rparr>"
              let ?o' = "\<lparr>exclusive = IsTrue x, baudrate = b, charsize = c',
                    stop_bits = (if IsTrue (args ! 5) then stop_bits_two else stop_bits_one),
                    parity = asParityType p, crtscts = IsTrue y,
                    flow_control = (if IsTrue (args ! 8) then flow_control_software
                                    else flow_control_hardware)\<rparr>"
              let ?K = "\<lambda>res. case res of
                     (h, Inl e) \<Rightarrow>
                       Inr (errFailed, g\<lparr>open_handles := h,
                              post_log := post_log g @ [''SerialPort Error: '' @ what e]\<rparr>)
                   | (h, Inr port) \<Rightarrow> Inr (errNone, g\<lparr>slots_0 := Some port, open_handles := h\<rparr>)"
              have r: "prSerialPort_Open env mem args g =
                  ?K (SerialPort_ctor env mem (Some 0) portName ?o (open_handles g))"
                by (simp only: prSerialPort_Open_def None path baud size valid par sum.case
                    Let_def simp_thms if_False)
              have r': "prSerialPort_Open env mem ?A g =
                  ?K (SerialPort_ctor env mem (Some 0) portName ?o' (open_handles g))"
                by (simp only: prSerialPort_Open_def n None path baud size valid par sum.case
                    Let_def simp_thms if_False)
              have c: "SerialPort_ctor env mem (Some 0) portName ?o' (open_handles g) =
                  (case SerialPort_ctor env mem (Some 0) portName ?o (open_handles g) of
                     (h', Inl ex) \<Rightarrow> (h', Inl ex)
                   | (h', Inr s) \<Rightarrow>
                       (h', Inr (s\<lparr>m_options := (m_options s)\<lparr>exclusive := IsTrue x,
                                                               crtscts := IsTrue y\<rparr>\<rparr>)))"
                using ctor_flags [where opts = ?o and e = "IsTrue x" and r = "IsTrue y"] by simp
              show ?thesis
              proof (cases "SerialPort_ctor env mem (Some 0) portName ?o (open_handles g)")
                case (Pair h res)
                show ?thesis
                proof (cases res)
                  case (Inl e)
                  with Pair show ?thesis
                    unfolding r r' c by (simp add: ended_def opened_engine_def)
                next
                  case (Inr port)
                  with Pair show ?thesis
                    unfolding r r' c by (simp add: ended_def opened_engine_def options_def)
                qed
              qed
            qed
          qed
        qed
      qed
    qed
  qed
qed

theorem flags_not_applied_witness:
  "length example_args = 9 \<and>
   opened_engine (prSerialPort_Open example_env example_memory
                    (example_args[2 := SlotTrue, 7 := SlotTrue]) example_vm) =
     Some (example_engine\<lparr>m_options := example_options\<lparr>exclusive := True, crtscts := True\<rparr>\<rparr>) \<and>
   map_option m_port (opened_engine (prSerialPort_Open example_env example_memory
                    (example_args[2 := SlotTrue, 7 := SlotTrue]) example_vm)) =
     Some (m_port example_engine)"
proof -
  let ?r' = "prSerialPort_Open example_env example_memory
               (example_args[2 := SlotTrue, 7 := SlotTrue]) example_vm"
  let ?r = "prSerialPort_Open example_env example_memory example_args example_vm"
  have l: "length example_args = 9"
    by (simp add: example_args_def)
  have o: "opened_engine ?r = Some example_engine"
    by (simp add: open_example opened_engine_def open_vm_def)
  from flags_not_applied [OF l, of example_env example_memory SlotTrue SlotTrue example_vm]
  have e: "ended ?r' = ended ?r"
    and p: "map_option m_port (opened_engine ?r') = map_option m_port (opened_engine ?r)"
    and f: "\<forall>s. opened_engine ?r' = Some s \<longrightarrow>
              exclusive (options s) = IsTrue SlotTrue \<and> crtscts (options s) = IsTrue SlotTrue"
    by blast+
  from p o obtain s where s: "opened_engine ?r' = Some s" and ps: "m_port s = m_port example_engine"
    by auto
  have c: "SerialPort_ctor example_env example_memory (Some 0) ''/dev/ttyUSB0''
             (example_options\<lparr>exclusive := True, crtscts := True\<rparr>) 0 =
           (1, Inr (example_engine\<lparr>m_options := example_options\<lparr>exclusive := True, crtscts := True\<rparr>\<rparr>))"
    by (simp add: ctor_flags ctor_example) (simp add: example_engine_def)
  have "?r' = Inr (errNone, example_vm\<lparr>slots_0 :=
            Some (example_engine\<lparr>m_options := example_options\<lparr>exclusive := True, crtscts := True\<rparr>\<rparr>),
            open_handles := 1\<rparr>)"
    by (simp add: prSerialPort_Open_def getSerialPort_def example_vm_def example_args_def
        slotStrVal_def slotIntVal_def character_size_def IsTrue_def asParityType_def PATH_MAX_def
        c [unfolded example_options_def, simplified] example_options_def)
  then have s': "opened_engine ?r' =
      Some (example_engine\<lparr>m_options := example_options\<lparr>exclusive := True, crtscts := True\<rparr>\<rparr>)"
    by (simp add: opened_engine_def)
  show ?thesis using l s' p o by simp
qed

end
